theory Spec2Isabelle
  imports Complex_Main "HOL-Library.Word" "HOL-Library.Multiset"
begin

section \<open>Webhook dispatch and delivery tracking\<close>

text \<open>
  A shallow embedding of the webhook service (\<^verbatim>\<open>WebhookService\<close>): \<^verbatim>\<open>triggerEvent\<close>,
  \<^verbatim>\<open>deliverWebhook\<close>, \<^verbatim>\<open>generateSignature\<close>, \<^verbatim>\<open>getDeliveryStats\<close>, of the two tables
  \<^verbatim>\<open>webhooks\<close> and \<^verbatim>\<open>webhook_deliveries\<close> of the schema, and of the handler of
  \<^verbatim>\<open>POST /api/admin/webhooks\<close>.

  Everything the service reads from outside (the clock, the random generator, the answer of
  the remote endpoint, how long an attempt takes, whether a database statement throws) is
  an explicit input of the model. What the runtime does with the values the service hands
  to it is modelled where a property depends on it: the header list that \<^verbatim>\<open>fetch\<close>
  builds from the object of headers, and the delay that \<^verbatim>\<open>setTimeout\<close> accepts. The two library functions \<^verbatim>\<open>JSON.stringify\<close> and HMAC-SHA-256 of Node's
  \<^verbatim>\<open>crypto\<close> module are parameters. Log entries keep the level and the message; the
  context object of a log call is not modelled.

  The parameters \<^verbatim>\<open>eventType\<close>, \<^verbatim>\<open>data\<close> and \<^verbatim>\<open>attempt\<close> of the source are
  written \<open>evType\<close>, \<open>d\<close> and \<open>n\<close>, since the source's names are field names of the
  records below.
\<close>

subsection \<open>Data model\<close>

text \<open>The value of \<^verbatim>\<open>data: any\<close>: an arbitrary structured value.\<close>

datatype json =
    JNull
  | JBool bool
  | JNum int
  | JStr string
  | JArr "json list"
  | JObj "(string \<times> json) list"

text \<open>A thrown value, reduced to the message the handlers extract from it
  (\<^verbatim>\<open>error instanceof Error ? error.message : String(error)\<close>).\<close>

datatype js_error = Thrown string

fun message :: "js_error \<Rightarrow> string" where
  "message (Thrown m) = m"

text \<open>The columns of table \<^verbatim>\<open>webhooks\<close> that a caller supplies on insert, and the row
  as selected (\<^verbatim>\<open>id\<close>, \<^verbatim>\<open>created_at\<close>, \<^verbatim>\<open>updated_at\<close> come from column defaults).
  \<^verbatim>\<open>active\<close> is an integer column, 1 meaning active; \<^verbatim>\<open>secret\<close>, \<^verbatim>\<open>user_id\<close>,
  \<^verbatim>\<open>headers\<close>, \<^verbatim>\<open>retry_count\<close> are nullable. An object with string values, such
  as \<^verbatim>\<open>headers\<close>, is the list of its entries in the order of its keys.\<close>

record InsertWebhook =
  name :: string
  url :: string
  secret :: "string option"
  events :: "string list"
  active :: int
  userId :: "string option"
  description :: "string option"
  headers :: "(string \<times> string) list option"
  retryCount :: "int option"

record Webhook = InsertWebhook +
  id_webhook :: string
  createdAt :: int
  updatedAt :: int

record WebhookPayload =
  event :: string
  timestamp :: string
  data :: json
  webhookId_payload :: string

text \<open>The values of one insert into \<^verbatim>\<open>webhook_deliveries\<close>, and the row as selected.\<close>

record InsertWebhookDelivery =
  webhookId :: string
  eventType :: string
  payload :: WebhookPayload
  responseStatus :: "nat option"
  responseBody :: "string option"
  responseHeaders :: "(string \<times> string) list option"
  duration :: "int option"
  success :: int
  attempt :: nat
  error :: "string option"

record WebhookDelivery = InsertWebhookDelivery +
  id_delivery :: string
  createdAt_delivery :: int

subsection \<open>The outside world of one attempt\<close>

text \<open>What \<^verbatim>\<open>fetch\<close> resolves to, and the request it is given.\<close>

record Response =
  status :: nat
  statusText :: string
  ok :: bool
  text_body :: "string option"  \<comment> \<open>\<open>None\<close>: \<^verbatim>\<open>response.text()\<close> rejects\<close>
  entries :: "(string \<times> string) list"

datatype fetch_result = Resolves Response | Rejects js_error

record Request =
  request_url :: string
  request_method :: string
  request_headers :: "(string \<times> string) list"
  request_body :: string
  request_timeout :: nat

text \<open>Library functions the service calls: \<^verbatim>\<open>JSON.stringify\<close> on a payload and
  \<^verbatim>\<open>crypto.createHmac("sha256", key).update(msg).digest("hex")\<close>.\<close>

record runtime =
  stringify :: "WebhookPayload \<Rightarrow> string"
  hmac_sha256_hex :: "string \<Rightarrow> string \<Rightarrow> string"

text \<open>Everything one call of \<^verbatim>\<open>deliverWebhook\<close> reads from outside, in the order of the
  source: \<^verbatim>\<open>Date.now()\<close> on entry, \<^verbatim>\<open>new Date().toISOString()\<close>,
  \<^verbatim>\<open>crypto.randomUUID()\<close>, the outcome of \<^verbatim>\<open>fetch\<close>, \<^verbatim>\<open>Date.now()\<close> after the
  response, whether the insert of the \<^verbatim>\<open>try\<close> block throws, \<^verbatim>\<open>Date.now()\<close> in the
  \<^verbatim>\<open>catch\<close> block, whether the insert of the \<^verbatim>\<open>catch\<close> block throws. \<open>elapsed\<close> is
  the time in milliseconds from the moment the call is due (at once for a first attempt, at
  the end of the timer's delay for a retry) until its promise settles.\<close>

record attempt_io =
  now_start :: int
  now_iso :: string
  randomUUID :: string
  fetch :: fetch_result
  now_response :: int
  insert_try :: "js_error option"
  now_catch :: int
  insert_catch :: "js_error option"
  elapsed :: nat

datatype log_entry = Log_info string | Log_warn string | Log_error string

text \<open>An armed \<^verbatim>\<open>setTimeout\<close>: the delay in milliseconds that the timer runs for, and
  the arguments of the \<^verbatim>\<open>deliverWebhook\<close> call in its callback.\<close>

record timer =
  delay :: nat
  timer_webhook :: Webhook
  timer_eventType :: string
  timer_data :: json
  timer_attempt :: nat

text \<open>What one call of \<^verbatim>\<open>deliverWebhook\<close> does: the request given to \<^verbatim>\<open>fetch\<close>, the
  payload it built, the rows it inserted, the timer it armed, its log entries, and whether
  its promise is fulfilled (\<open>Inr\<close>) or rejected (\<open>Inl\<close>).\<close>

record attempt_effects =
  sent :: Request
  built :: WebhookPayload
  inserted :: "InsertWebhookDelivery list"
  armed :: "timer option"
  logged :: "log_entry list"
  settled :: "js_error + unit"

subsection \<open>Helpers of the language\<close>

text \<open>Decimal rendering of a number inside a template string.\<close>

fun digit :: "nat \<Rightarrow> char" where
  "digit n = (''0123456789'' ! (n mod 10))"

function show_nat :: "nat \<Rightarrow> string" where
  "show_nat n = (if n < 10 then [digit n] else show_nat (n div 10) @ [digit n])"
  by pat_completeness auto
termination
  by (relation "measure (\<lambda>n. n)") auto

text \<open>Truthiness of a nullable string: neither \<^verbatim>\<open>null\<close> nor empty.\<close>

fun truthy :: "string option \<Rightarrow> bool" where
  "truthy None = False"
| "truthy (Some s) = (s \<noteq> [])"

text \<open>\<^verbatim>\<open>webhook.retryCount || 3\<close>: \<^verbatim>\<open>null\<close> and 0 both give 3.\<close>

definition maxRetries :: "Webhook \<Rightarrow> int" where
  "maxRetries webhook =
     (case retryCount webhook of
        None \<Rightarrow> 3
      | Some r \<Rightarrow> if r = 0 then 3 else r)"

text \<open>\<^verbatim>\<open>s.slice(0, 5000)\<close>.\<close>

definition slice5000 :: "string \<Rightarrow> string" where
  "slice5000 s = take 5000 s"

text \<open>Objects with string values. \<^verbatim>\<open>obj[k] = v\<close> replaces the value of an existing key,
  which keeps its place, and puts a new key last; \<^verbatim>\<open>{...a, ...b}\<close> assigns the entries of
  \<open>b\<close> to a copy of \<open>a\<close>, one after the other; \<^verbatim>\<open>Object.fromEntries\<close> assigns the
  entries to an empty object. (Keys that are decimal numbers, which an object lists first,
  do not occur among the names looked up here.)\<close>

fun assign :: "string \<Rightarrow> string \<Rightarrow> (string \<times> string) list \<Rightarrow> (string \<times> string) list" where
  "assign k v [] = [(k, v)]"
| "assign k v ((k', v') # obj) =
     (if k' = k then (k, v) # obj else (k', v') # assign k v obj)"

definition spread :: "(string \<times> string) list \<Rightarrow> (string \<times> string) list \<Rightarrow> (string \<times> string) list" where
  "spread a b = foldl (\<lambda>obj (k, v). assign k v obj) a b"

definition fromEntries :: "(string \<times> string) list \<Rightarrow> (string \<times> string) list" where
  "fromEntries kvs = spread [] kvs"

text \<open>What \<^verbatim>\<open>fetch\<close> makes of the object of headers it is given: it appends the entries
  to a header list in the object's order, where names are compared without regard to the
  case of ASCII letters, each value loses its leading and trailing whitespace, and the values
  of equal names are joined with a comma and a space. \<open>combined obj nm\<close> is the value the
  request carries for the header \<open>nm\<close>, \<open>None\<close> when it carries no such header. (A name
  or a value that the header list refuses makes \<^verbatim>\<open>fetch\<close> throw; that is one of the
  outcomes \<open>Rejects\<close> of an attempt.)\<close>

definition lower_char :: "char \<Rightarrow> char" where
  "lower_char c =
     (case map_of (zip ''ABCDEFGHIJKLMNOPQRSTUVWXYZ'' ''abcdefghijklmnopqrstuvwxyz'') c of
        None \<Rightarrow> c
      | Some l \<Rightarrow> l)"

definition lower :: "string \<Rightarrow> string" where
  "lower s = map lower_char s"

definition http_whitespace :: "char \<Rightarrow> bool" where
  "http_whitespace c = (c \<in> set [CHR 0x09, CHR 0x0A, CHR 0x0D, CHR 0x20])"

definition normalize_value :: "string \<Rightarrow> string" where
  "normalize_value v = rev (dropWhile http_whitespace (rev (dropWhile http_whitespace v)))"

fun join :: "string list \<Rightarrow> string" where
  "join [] = []"
| "join [v] = v"
| "join (v # w # vs) = v @ '', '' @ join (w # vs)"

definition combined :: "(string \<times> string) list \<Rightarrow> string \<Rightarrow> string option" where
  "combined obj nm =
     (case filter (\<lambda>(k, v). lower k = lower nm) obj of
        [] \<Rightarrow> None
      | kvs \<Rightarrow> Some (join (map (\<lambda>(k, v). normalize_value v) kvs)))"

definition header_sent :: "Request \<Rightarrow> string \<Rightarrow> string option" where
  "header_sent req nm = combined (request_headers req) nm"

text \<open>\<^verbatim>\<open>Math.pow(2, attempt) * 1000\<close> as the double it is: the exact product as long as it
  is below \<open>2 ^ 1024\<close>, and \<^verbatim>\<open>Infinity\<close> (\<open>None\<close>) from attempt 1015 on.\<close>

definition backoff :: "nat \<Rightarrow> nat option" where
  "backoff n = (if n < 1015 then Some (2 ^ n * 1000) else None)"

text \<open>The delay a timer of the runtime runs for: \<^verbatim>\<open>setTimeout\<close> replaces a delay that is
  not between 1 and 2147483647 milliseconds by 1.\<close>

definition timeout_after :: "nat option \<Rightarrow> nat" where
  "timeout_after ms =
     (case ms of
        None \<Rightarrow> 1
      | Some m \<Rightarrow> if 1 \<le> m \<and> m \<le> 2147483647 then m else 1)"

subsection \<open>Signer\<close>

definition generateSignature :: "runtime \<Rightarrow> WebhookPayload \<Rightarrow> string \<Rightarrow> string" where
  "generateSignature rt p key = ''sha256='' @ hmac_sha256_hex rt key (stringify rt p)"

subsection \<open>Delivery attempter and retry scheduler\<close>

definition default_headers :: "string \<Rightarrow> string \<Rightarrow> (string \<times> string) list" where
  "default_headers evType uuid =
     [(''Content-Type'', ''application/json''),
      (''User-Agent'', ''VideoHub-Webhook/1.0''),
      (''X-Webhook-Event'', evType),
      (''X-Webhook-Delivery-ID'', uuid)]"

text \<open>\<^verbatim>\<open>setTimeout(() => this.deliverWebhook(webhook, eventType, data, attempt + 1),
  Math.pow(2, attempt) * 1000)\<close>: the timer runs for the delay that \<^verbatim>\<open>setTimeout\<close> makes
  of the requested one.\<close>

definition retry_timer :: "Webhook \<Rightarrow> string \<Rightarrow> json \<Rightarrow> nat \<Rightarrow> timer" where
  "retry_timer webhook evType d n =
     \<lparr>delay = timeout_after (backoff n),
      timer_webhook = webhook,
      timer_eventType = evType,
      timer_data = d,
      timer_attempt = n + 1\<rparr>"

definition retrying :: "string \<Rightarrow> Webhook \<Rightarrow> nat \<Rightarrow> string" where
  "retrying what webhook n =
     what @ '', retrying ('' @ show_nat n @ ''/'' @ show_nat (nat (maxRetries webhook)) @ '')''"

text \<open>The local constants of \<^verbatim>\<open>deliverWebhook\<close>: \<^verbatim>\<open>payload\<close>, \<^verbatim>\<open>headers\<close>
  (the defaults, overlaid by the subscription's own headers, then the signature when the
  secret is truthy), and the request given to \<^verbatim>\<open>fetch\<close>.\<close>

definition make_payload :: "attempt_io \<Rightarrow> Webhook \<Rightarrow> string \<Rightarrow> json \<Rightarrow> WebhookPayload" where
  "make_payload io webhook evType d =
     \<lparr>event = evType, timestamp = now_iso io, data = d,
      webhookId_payload = id_webhook webhook\<rparr>"

definition make_headers ::
  "runtime \<Rightarrow> attempt_io \<Rightarrow> Webhook \<Rightarrow> string \<Rightarrow> WebhookPayload \<Rightarrow> (string \<times> string) list" where
  "make_headers rt io webhook evType p =
     (let hdrs = spread (default_headers evType (randomUUID io))
                   (case headers webhook of None \<Rightarrow> [] | Some h \<Rightarrow> h)
      in case secret webhook of
           None \<Rightarrow> hdrs
         | Some s \<Rightarrow>
             if s = [] then hdrs
             else assign ''X-Webhook-Signature'' (generateSignature rt p s) hdrs)"

definition make_request ::
  "runtime \<Rightarrow> attempt_io \<Rightarrow> Webhook \<Rightarrow> string \<Rightarrow> WebhookPayload \<Rightarrow> Request" where
  "make_request rt io webhook evType p =
     \<lparr>request_url = url webhook, request_method = ''POST'',
      request_headers = make_headers rt io webhook evType p,
      request_body = stringify rt p,
      request_timeout = 30000\<rparr>"

text \<open>The row inserted in the \<^verbatim>\<open>try\<close> block, after a response, and the row inserted
  in the \<^verbatim>\<open>catch\<close> block, after a thrown error.\<close>

definition response_row ::
  "attempt_io \<Rightarrow> Webhook \<Rightarrow> string \<Rightarrow> WebhookPayload \<Rightarrow> nat \<Rightarrow> Response
    \<Rightarrow> InsertWebhookDelivery" where
  "response_row io webhook evType p n response =
     (let dur = now_response io - now_start io;
          body = (case text_body response of None \<Rightarrow> [] | Some b \<Rightarrow> b);
          succ = ok response
      in \<lparr>webhookId = id_webhook webhook, eventType = evType, payload = p,
          responseStatus = Some (status response),
          responseBody = Some (slice5000 body),
          responseHeaders = Some (fromEntries (entries response)),
          duration = Some dur,
          success = (if succ then 1 else 0),
          attempt = n,
          error = (if succ then None
                   else Some (''HTTP '' @ show_nat (status response) @ '': ''
                              @ statusText response))\<rparr>)"

definition error_row ::
  "attempt_io \<Rightarrow> Webhook \<Rightarrow> string \<Rightarrow> WebhookPayload \<Rightarrow> nat \<Rightarrow> js_error
    \<Rightarrow> InsertWebhookDelivery" where
  "error_row io webhook evType p n err =
     (let dur = now_catch io - now_start io;
          errorMessage = message err
      in \<lparr>webhookId = id_webhook webhook, eventType = evType, payload = p,
          responseStatus = None, responseBody = None, responseHeaders = None,
          duration = Some dur, success = 0, attempt = n,
          error = Some (slice5000 errorMessage)\<rparr>)"

text \<open>The \<^verbatim>\<open>catch\<close> block of \<^verbatim>\<open>deliverWebhook\<close>. Its insert is not guarded: when it
  throws, the promise of \<^verbatim>\<open>deliverWebhook\<close> is rejected and nothing after it runs.\<close>

definition deliver_catch ::
  "attempt_io \<Rightarrow> Webhook \<Rightarrow> string \<Rightarrow> json \<Rightarrow> nat \<Rightarrow> Request \<Rightarrow> WebhookPayload \<Rightarrow> js_error
    \<Rightarrow> attempt_effects" where
  "deliver_catch io webhook evType d n req p err =
     (case insert_catch io of
        Some err' \<Rightarrow>
          \<lparr>sent = req, built = p, inserted = [], armed = None, logged = [],
           settled = Inl err'\<rparr>
      | None \<Rightarrow>
          if int n < maxRetries webhook
          then \<lparr>sent = req, built = p, inserted = [error_row io webhook evType p n err],
                armed = Some (retry_timer webhook evType d n),
                logged = [Log_warn (retrying ''Webhook delivery error'' webhook n)],
                settled = Inr ()\<rparr>
          else \<lparr>sent = req, built = p, inserted = [error_row io webhook evType p n err],
                armed = None,
                logged = [Log_error ''Webhook delivery failed after all retries''],
                settled = Inr ()\<rparr>)"

text \<open>One call of \<^verbatim>\<open>deliverWebhook(webhook, eventType, data, attempt)\<close>. An error thrown
  by \<^verbatim>\<open>fetch\<close> or by the insert of the \<^verbatim>\<open>try\<close> block leads to the \<^verbatim>\<open>catch\<close>
  block.\<close>

definition deliverWebhook ::
  "runtime \<Rightarrow> attempt_io \<Rightarrow> Webhook \<Rightarrow> string \<Rightarrow> json \<Rightarrow> nat \<Rightarrow> attempt_effects" where
  "deliverWebhook rt io webhook evType d n =
     (let p = make_payload io webhook evType d;
          req = make_request rt io webhook evType p
      in case fetch io of
           Rejects err \<Rightarrow> deliver_catch io webhook evType d n req p err
         | Resolves response \<Rightarrow>
             (case insert_try io of
                Some err \<Rightarrow> deliver_catch io webhook evType d n req p err
              | None \<Rightarrow>
                  if \<not> ok response \<and> int n < maxRetries webhook
                  then \<lparr>sent = req, built = p,
                        inserted = [response_row io webhook evType p n response],
                        armed = Some (retry_timer webhook evType d n),
                        logged = [Log_warn (retrying ''Webhook delivery failed'' webhook n),
                                  Log_info ''Webhook delivered successfully''],
                        settled = Inr ()\<rparr>
                  else \<lparr>sent = req, built = p,
                        inserted = [response_row io webhook evType p n response],
                        armed = None,
                        logged = [Log_info ''Webhook delivered successfully''],
                        settled = Inr ()\<rparr>))"

text \<open>The attempt succeeded: \<^verbatim>\<open>fetch\<close> resolved and \<^verbatim>\<open>response.ok\<close> holds.\<close>

fun succeeds :: "attempt_io \<Rightarrow> bool" where
  "succeeds io = (case fetch io of Resolves response \<Rightarrow> ok response | Rejects err \<Rightarrow> False)"

text \<open>No insert of this attempt throws.\<close>

fun ledger_accepts :: "attempt_io \<Rightarrow> bool" where
  "ledger_accepts io = (insert_try io = None \<and> insert_catch io = None)"

subsection \<open>A delivery pipeline\<close>

text \<open>The attempts of one logical delivery, from attempt \<open>n\<close> on: a call of
  \<^verbatim>\<open>deliverWebhook\<close>, and, when it armed a timer, the call in the timer's callback once
  the timer fires, and so on. \<open>env k\<close> is the outside world of attempt \<open>k\<close>.\<close>

function run_pipeline ::
  "runtime \<Rightarrow> (nat \<Rightarrow> attempt_io) \<Rightarrow> Webhook \<Rightarrow> string \<Rightarrow> json \<Rightarrow> nat \<Rightarrow> attempt_effects list" where
  "run_pipeline rt env webhook evType d n =
     (let eff = deliverWebhook rt (env n) webhook evType d n
      in case armed eff of
           None \<Rightarrow> [eff]
         | Some t \<Rightarrow>
             eff # run_pipeline rt env (timer_webhook t) (timer_eventType t) (timer_data t)
                     (timer_attempt t))"
  by pat_completeness auto
termination
proof (relation "measure (\<lambda>(rt, env, webhook, evType, d, n). nat (maxRetries webhook - int n))")
  show "wf (measure (\<lambda>(rt, env, webhook, evType, d, n). nat (maxRetries webhook - int n)))"
    by simp
next
  fix rt :: runtime and env :: "nat \<Rightarrow> attempt_io" and webhook :: Webhook
    and evType :: string and d :: json and n :: nat and eff t
  assume eff: "eff = deliverWebhook rt (env n) webhook evType d n" and t: "armed eff = Some t"
  have in_catch: "t = retry_timer webhook evType d n \<and> int n < maxRetries webhook"
    if "armed (deliver_catch io webhook evType d n req p err) = Some t" for io req p err
    using that by (auto simp: deliver_catch_def Let_def split: option.splits if_splits)
  have "t = retry_timer webhook evType d n \<and> int n < maxRetries webhook"
    if "armed (deliverWebhook rt io webhook evType d n) = Some t" for io
    using that
    by (auto simp: deliverWebhook_def Let_def dest: in_catch
             split: fetch_result.splits option.splits if_splits)
  with eff t have "t = retry_timer webhook evType d n \<and> int n < maxRetries webhook"
    by blast
  then show "((rt, env, timer_webhook t, timer_eventType t, timer_data t, timer_attempt t),
              (rt, env, webhook, evType, d, n))
             \<in> measure (\<lambda>(rt, env, webhook, evType, d, n). nat (maxRetries webhook - int n))"
    by (simp add: retry_timer_def)
qed

text \<open>The rows a run has written to the ledger, oldest first.\<close>

definition ledger :: "attempt_effects list \<Rightarrow> InsertWebhookDelivery list" where
  "ledger effs = concat (map inserted effs)"

text \<open>The same attempts, each with the moment at which its promise settles, in milliseconds
  after the first call: an attempt due at \<open>due\<close> settles \<open>elapsed\<close> later, and the retry it
  arms is due when the timer's delay has passed.\<close>

function timeline ::
  "runtime \<Rightarrow> (nat \<Rightarrow> attempt_io) \<Rightarrow> Webhook \<Rightarrow> string \<Rightarrow> json \<Rightarrow> nat \<Rightarrow> nat
    \<Rightarrow> (nat \<times> attempt_effects) list" where
  "timeline rt env webhook evType d n due =
     (let eff = deliverWebhook rt (env n) webhook evType d n;
          at_end = due + elapsed (env n)
      in case armed eff of
           None \<Rightarrow> [(at_end, eff)]
         | Some t \<Rightarrow>
             (at_end, eff) # timeline rt env (timer_webhook t) (timer_eventType t) (timer_data t)
                               (timer_attempt t) (at_end + delay t))"
  by pat_completeness auto
termination
proof (relation "measure (\<lambda>(rt, env, webhook, evType, d, n, due). nat (maxRetries webhook - int n))")
  show "wf (measure (\<lambda>(rt, env, webhook, evType, d, n, due). nat (maxRetries webhook - int n)))"
    by simp
next
  fix rt :: runtime and env :: "nat \<Rightarrow> attempt_io" and webhook :: Webhook
    and evType :: string and d :: json and n due :: nat and eff at_end t
  assume eff: "eff = deliverWebhook rt (env n) webhook evType d n" and t: "armed eff = Some t"
  have in_catch: "t = retry_timer webhook evType d n \<and> int n < maxRetries webhook"
    if "armed (deliver_catch io webhook evType d n req p err) = Some t" for io req p err
    using that by (auto simp: deliver_catch_def Let_def split: option.splits if_splits)
  have "t = retry_timer webhook evType d n \<and> int n < maxRetries webhook"
    if "armed (deliverWebhook rt io webhook evType d n) = Some t" for io
    using that
    by (auto simp: deliverWebhook_def Let_def dest: in_catch
             split: fetch_result.splits option.splits if_splits)
  with eff t have "t = retry_timer webhook evType d n \<and> int n < maxRetries webhook"
    by blast
  then show "((rt, env, timer_webhook t, timer_eventType t, timer_data t, timer_attempt t,
               at_end + delay t),
              (rt, env, webhook, evType, d, n, due))
             \<in> measure (\<lambda>(rt, env, webhook, evType, d, n, due). nat (maxRetries webhook - int n))"
    by (simp add: retry_timer_def)
qed

text \<open>The rows that the attempts settled by the moment \<open>T\<close> have written.\<close>

definition rows_by :: "nat \<Rightarrow> (nat \<times> attempt_effects) list \<Rightarrow> InsertWebhookDelivery list" where
  "rows_by T line = concat (map (\<lambda>(t, eff). if t \<le> T then inserted eff else []) line)"

subsection \<open>Event matcher and dispatcher\<close>

text \<open>The database as the service sees it: the rows of the two tables, and whether the
  storage engine is unavailable, in which case every statement throws.\<close>

record database =
  webhooks_rows :: "Webhook list"
  webhook_deliveries_rows :: "WebhookDelivery list"
  unavailable :: "js_error option"

text \<open>\<^verbatim>\<open>db.select().from(webhooks).where(and(eq(webhooks.active, 1),
  eq(webhooks.userId, userId)))\<close>. A row whose \<^verbatim>\<open>user_id\<close> is null matches no user.\<close>

definition select_active_webhooks :: "database \<Rightarrow> string \<Rightarrow> js_error + Webhook list" where
  "select_active_webhooks db uid =
     (case unavailable db of
        Some err \<Rightarrow> Inl err
      | None \<Rightarrow> Inr (filter (\<lambda>w. active w = 1 \<and> userId w = Some uid) (webhooks_rows db)))"

text \<open>\<^verbatim>\<open>Promise.allSettled\<close> waits until every promise is fulfilled or rejected and is
  itself always fulfilled, with the list of outcomes.\<close>

definition allSettled :: "(js_error + unit) list \<Rightarrow> js_error + (js_error + unit) list" where
  "allSettled promises = Inr promises"

text \<open>What a call of \<^verbatim>\<open>triggerEvent\<close> has done at the moment its promise settles: what
  the caller observes (\<open>Inr\<close> a normal return, \<open>Inl\<close> a raised error), the calls of
  \<^verbatim>\<open>deliverWebhook\<close> it made, each with the subscription it was made for, and its log.\<close>

record trigger_outcome =
  returned :: "js_error + unit"
  started :: "(Webhook \<times> attempt_effects) list"
  trigger_logged :: "log_entry list"

text \<open>The body of the \<^verbatim>\<open>try\<close> block. \<open>env w n\<close> is the outside world of attempt \<open>n\<close>
  of the pipeline of the subscription with id \<open>w\<close>.\<close>

definition triggerEvent_try ::
  "runtime \<Rightarrow> database \<Rightarrow> (string \<Rightarrow> nat \<Rightarrow> attempt_io) \<Rightarrow> string \<Rightarrow> json \<Rightarrow> string
    \<Rightarrow> trigger_outcome" where
  "triggerEvent_try rt db env evType d uid =
     (case select_active_webhooks db uid of
        Inl err \<Rightarrow> \<lparr>returned = Inl err, started = [], trigger_logged = []\<rparr>
      | Inr activeWebhooks \<Rightarrow>
          (let matchingWebhooks = filter (\<lambda>w. evType \<in> set (events w)) activeWebhooks;
               info = Log_info (''Triggering '' @ show_nat (length matchingWebhooks)
                                @ '' webhooks for event: '' @ evType);
               deliveryPromises =
                 map (\<lambda>w. deliverWebhook rt (env (id_webhook w) 1) w evType d 1) matchingWebhooks
           in case allSettled (map settled deliveryPromises) of
                Inl err \<Rightarrow>
                  \<lparr>returned = Inl err, started = zip matchingWebhooks deliveryPromises,
                   trigger_logged = [info]\<rparr>
              | Inr outcomes \<Rightarrow>
                  \<lparr>returned = Inr (), started = zip matchingWebhooks deliveryPromises,
                   trigger_logged = [info]\<rparr>))"

text \<open>\<^verbatim>\<open>triggerEvent(eventType, data, userId)\<close>: the \<^verbatim>\<open>try\<close> block, and the
  \<^verbatim>\<open>catch\<close> block that logs the error and returns.\<close>

definition triggerEvent ::
  "runtime \<Rightarrow> database \<Rightarrow> (string \<Rightarrow> nat \<Rightarrow> attempt_io) \<Rightarrow> string \<Rightarrow> json \<Rightarrow> string
    \<Rightarrow> trigger_outcome" where
  "triggerEvent rt db env evType d uid =
     (let out = triggerEvent_try rt db env evType d uid
      in case returned out of
           Inl err \<Rightarrow>
             out\<lparr>returned := Inr (),
                 trigger_logged := trigger_logged out @ [Log_error ''Failed to trigger webhooks'']\<rparr>
         | Inr u \<Rightarrow> out)"

text \<open>Time. The calls of \<^verbatim>\<open>deliverWebhook\<close> in \<^verbatim>\<open>triggerEvent\<close> are made one after the
  other without a pause, at moment 0. \<^verbatim>\<open>await Promise.allSettled(deliveryPromises)\<close> ends
  when the last of these first attempts has settled, and then \<^verbatim>\<open>triggerEvent\<close> returns:
  \<open>return_time\<close> is that moment, 0 when no call was made. The retries of a pipeline run in
  timer callbacks, at the moments \<open>timeline\<close> gives; \<open>ledger_at_return\<close> is what all the
  attempts of the started pipelines that have settled by the return have written.\<close>

definition return_time :: "(string \<Rightarrow> nat \<Rightarrow> attempt_io) \<Rightarrow> trigger_outcome \<Rightarrow> nat" where
  "return_time env out =
     foldr max (map (\<lambda>(w, eff). elapsed (env (id_webhook w) 1)) (started out)) 0"

definition ledger_at_return ::
  "runtime \<Rightarrow> (string \<Rightarrow> nat \<Rightarrow> attempt_io) \<Rightarrow> string \<Rightarrow> json \<Rightarrow> trigger_outcome
    \<Rightarrow> InsertWebhookDelivery list" where
  "ledger_at_return rt env evType d out =
     concat (map (\<lambda>(w, eff). rows_by (return_time env out)
                                (timeline rt (env (id_webhook w)) w evType d 1 0))
               (started out))"

subsection \<open>Delivery ledger statistics\<close>

record delivery_stats =
  total :: int
  successful :: int
  failed :: int
  successRate :: rat
  avgDuration :: int

text \<open>\<^verbatim>\<open>Math.round\<close>: the nearest integer, a tie going up. Numbers are exact rationals
  here, not IEEE doubles: where the exact value is a tie, the double that the code rounds
  can lie just below it, so the properties of the two roundings are stated as bounds.\<close>

definition math_round :: "rat \<Rightarrow> int" where
  "math_round x = \<lfloor>x + 1 / 2\<rfloor>"



subsection \<open>Creating a subscription\<close>



datatype reply = Created Webhook | Failed nat string





subsection \<open>Inputs for the examples\<close>

text \<open>Stand-ins for the two library functions, to evaluate examples; the theorems hold for
  every choice.\<close>

definition toy_runtime :: runtime where
  "toy_runtime =
     \<lparr>stringify = (\<lambda>p. ''{'' @ event p @ ''|'' @ timestamp p @ ''|'' @ webhookId_payload p @ ''}''),
      hmac_sha256_hex = (\<lambda>key msg. ''mac('' @ key @ '','' @ msg @ '')'')\<rparr>"

text \<open>A subscription of tenant \<open>tenant-x\<close> to \<open>video.deleted\<close>, with a secret and three
  attempts; the same with no secret and a custom header named like the signature header;
  the same with a retry count of 0.\<close>

definition hook :: Webhook where
  "hook =
     \<lparr>name = ''backup'', url = ''https://example.org/hook'', secret = Some ''s3cret'',
      events = [''video.deleted''], active = 1, userId = Some ''tenant-x'',
      description = None, headers = None, retryCount = Some 3,
      id_webhook = ''w1'', createdAt = 0, updatedAt = 0\<rparr>"

definition forged :: Webhook where
  "forged = hook\<lparr>secret := None, headers := Some [(''X-Webhook-Signature'', ''sha256=forged'')]\<rparr>"

text \<open>An attempt whose endpoint answers with the given status after 12 ms, at the clock
  reading \<open>stamp\<close>, and whose ledger insert is accepted; and a pipeline whose endpoint always
  answers 500, attempt \<open>k\<close> being made at clock reading \<open>Tk\<close>.\<close>

definition answer :: "nat \<Rightarrow> bool \<Rightarrow> string \<Rightarrow> attempt_io" where
  "answer code good stamp =
     \<lparr>now_start = 0, now_iso = stamp, randomUUID = ''uuid'',
      fetch = Resolves \<lparr>status = code,
                        statusText = (if good then ''OK'' else ''Internal Server Error''),
                        ok = good, text_body = Some [], entries = []\<rparr>,
      now_response = 12, insert_try = None, now_catch = 12, insert_catch = None,
      elapsed = 12\<rparr>"

text \<open>The subscription \<open>hook\<close> with a custom header whose name differs from the signature
  header's only in the case of its letters; \<open>hook\<close> with 23 attempts.\<close>

definition shadowed :: Webhook where
  "shadowed = hook\<lparr>headers := Some [(''x-webhook-signature'', ''sha256=forged'')]\<rparr>"

definition patient :: Webhook where
  "patient = hook\<lparr>retryCount := Some 23\<rparr>"

definition zero_retries :: Webhook where
  "zero_retries = hook\<lparr>retryCount := Some 0\<rparr>"

definition ticking :: "nat \<Rightarrow> attempt_io" where
  "ticking k = answer 500 False (''T'' @ show_nat k)"

text \<open>An attempt whose endpoint answers 200 while the ledger refuses both inserts.\<close>

definition rejecting :: attempt_io where
  "rejecting = (answer 200 True ''T0'')
     \<lparr>insert_try := Some (Thrown ''disk full''), insert_catch := Some (Thrown ''disk full'')\<rparr>"

text \<open>A database holding the subscription \<open>hook\<close>, and the same database while the
  storage engine is unavailable.\<close>

definition registry :: database where
  "registry = \<lparr>webhooks_rows = [hook], webhook_deliveries_rows = [], unavailable = None\<rparr>"

text \<open>Two subscriptions to the same event: the endpoint of \<open>w1\<close> answers 500 after 12 ms
  at every attempt, the endpoint of \<open>w2\<close> answers 200 after 30 seconds.\<close>

definition two_hooks :: database where
  "two_hooks =
     \<lparr>webhooks_rows = [hook, hook\<lparr>id_webhook := ''w2''\<rparr>], webhook_deliveries_rows = [],
      unavailable = None\<rparr>"

definition fast_and_slow :: "string \<Rightarrow> nat \<Rightarrow> attempt_io" where
  "fast_and_slow w k =
     (if w = ''w1'' then ticking k else (answer 200 True ''T0'')\<lparr>elapsed := 30000\<rparr>)"

definition outage :: database where
  "outage = registry\<lparr>unavailable := Some (Thrown ''connection refused'')\<rparr>"

text \<open>A ledger with three attempts for \<open>w1\<close> (one of them failed, with no duration) and
  one for another subscription.\<close>

definition delivered :: "string \<Rightarrow> int \<Rightarrow> int option \<Rightarrow> int \<Rightarrow> WebhookDelivery" where
  "delivered wid succ dur made =
     \<lparr>webhookId = wid, eventType = ''video.deleted'',
      payload = \<lparr>event = ''video.deleted'', timestamp = ''T0'', data = JNull,
                 webhookId_payload = wid\<rparr>,
      responseStatus = None, responseBody = None, responseHeaders = None,
      duration = dur, success = succ, attempt = 1, error = None,
      id_delivery = ''d'', createdAt_delivery = made\<rparr>"




section \<open>Properties\<close>

subsection \<open>One attempt\<close>

declare run_pipeline.simps [simp del]

lemma sent_deliver_catch [simp]: "sent (deliver_catch io webhook evType d n req p err) = req"
  by (simp add: deliver_catch_def split: option.splits)

lemma built_deliver_catch [simp]: "built (deliver_catch io webhook evType d n req p err) = p"
  by (simp add: deliver_catch_def split: option.splits)

lemma built_deliverWebhook:
  "built (deliverWebhook rt io webhook evType d n) = make_payload io webhook evType d"
  by (simp add: deliverWebhook_def Let_def split: fetch_result.splits option.splits)

lemma sent_deliverWebhook:
  "sent (deliverWebhook rt io webhook evType d n) =
     make_request rt io webhook evType (make_payload io webhook evType d)"
  by (simp add: deliverWebhook_def Let_def split: fetch_result.splits option.splits)

lemma header_sent_deliverWebhook:
  "header_sent (sent (deliverWebhook rt io webhook evType d n)) nm
   = combined (make_headers rt io webhook evType (make_payload io webhook evType d)) nm"
  by (simp add: header_sent_def sent_deliverWebhook make_request_def)

lemma body_deliverWebhook:
  "request_body (sent (deliverWebhook rt io webhook evType d n))
   = stringify rt (make_payload io webhook evType d)"
  by (simp add: sent_deliverWebhook make_request_def)

lemma armed_deliver_catch:
  "armed (deliver_catch io webhook evType d n req p err) =
     (if insert_catch io = None \<and> int n < maxRetries webhook
      then Some (retry_timer webhook evType d n) else None)"
  by (simp add: deliver_catch_def split: option.splits)

text \<open>A timer is armed exactly when the attempt ended in a recorded failure and its ordinal
  is below the bound.\<close>

lemma armed_deliverWebhook:
  "armed (deliverWebhook rt io webhook evType d n) =
     (if (case fetch io of
            Rejects err \<Rightarrow> insert_catch io = None
          | Resolves response \<Rightarrow>
              (case insert_try io of None \<Rightarrow> \<not> ok response | Some err \<Rightarrow> insert_catch io = None))
         \<and> int n < maxRetries webhook
      then Some (retry_timer webhook evType d n) else None)"
  by (simp add: deliverWebhook_def Let_def armed_deliver_catch
           split: fetch_result.splits option.splits)

subsection \<open>Objects and header lists\<close>


lemma in_keys: "(k, v) \<in> set obj \<Longrightarrow> k \<in> fst ` set obj"
  by force

lemma map_fst_assign:
  "map fst (assign k v obj)
   = (if k \<in> set (map fst obj) then map fst obj else map fst obj @ [k])"
  by (induction obj) (auto dest: in_keys)

lemma keys_assign: "set (map fst (assign k v obj)) = insert k (set (map fst obj))"
  unfolding map_fst_assign by auto

lemma keys_spread: "set (map fst (spread a b)) = set (map fst a) \<union> set (map fst b)"
  unfolding spread_def
proof (induction b arbitrary: a)
  case Nil
  show ?case by simp
next
  case (Cons kv b)
  obtain k v where kv: "kv = (k, v)" by (cases kv)
  have "set (map fst (foldl (\<lambda>obj (k, v). assign k v obj) (assign k v a) b))
        = set (map fst (assign k v a)) \<union> set (map fst b)"
    by (rule Cons.IH)
  then show ?case
    unfolding keys_assign by (simp add: kv)
qed

lemma filter_assign:
  "filter (\<lambda>(k', v'). Q k') (assign k v obj)
   = (if Q k then assign k v (filter (\<lambda>(k', v'). Q k') obj) else filter (\<lambda>(k', v'). Q k') obj)"
  by (induction obj) auto

lemma filter_spread:
  "filter (\<lambda>(k, v). Q k) (spread a b)
   = spread (filter (\<lambda>(k, v). Q k) a) (filter (\<lambda>(k, v). Q k) b)"
  unfolding spread_def
proof (induction b arbitrary: a)
  case Nil
  show ?case by simp
next
  case (Cons kv b)
  obtain k v where kv: "kv = (k, v)" by (cases kv)
  show ?case
    by (simp add: kv Cons.IH filter_assign)
qed

lemma lower_signature_name [simp]:
  "lower ''X-Webhook-Signature'' = ''x-webhook-signature''"
  by (simp add: lower_def lower_char_def)

lemma defaults_not_signature:
  "filter (\<lambda>(k, v). lower k = lower ''X-Webhook-Signature'') (default_headers evType uuid) = []"
  by (simp add: default_headers_def lower_def lower_char_def)

lemma combined_None_iff:
  "(combined obj nm = None) = (\<forall>k \<in> set (map fst obj). lower k \<noteq> lower nm)"
proof -
  have "(combined obj nm = None) = (filter (\<lambda>(k, v). lower k = lower nm) obj = [])"
    by (simp add: combined_def split: list.splits)
  also have "\<dots> = (\<forall>k \<in> set (map fst obj). lower k \<noteq> lower nm)"
    by (auto simp: filter_empty_conv)
  finally show ?thesis .
qed

lemma combined_spread_defaults:
  "combined (spread (default_headers evType uuid) custom) ''X-Webhook-Signature''
   = combined (spread [] custom) ''X-Webhook-Signature''"
proof -
  have "filter (\<lambda>(k, v). lower k = lower ''X-Webhook-Signature'')
          (spread (default_headers evType uuid) custom)
        = filter (\<lambda>(k, v). lower k = lower ''X-Webhook-Signature'') (spread [] custom)"
    by (simp only: filter_spread defaults_not_signature filter.simps)
  then show ?thesis
    by (simp only: combined_def)
qed

lemma spread_single_key:
  assumes "\<forall>(k, v) \<in> set b. k = nm" and "\<forall>(k, v) \<in> set a. k = nm" and "length a \<le> 1"
  shows "(\<forall>(k, v) \<in> set (spread a b). k = nm) \<and> length (spread a b) \<le> 1"
  using assms unfolding spread_def
proof (induction b arbitrary: a)
  case Nil
  then show ?case by simp
next
  case (Cons kv b)
  obtain k v where kv: "kv = (k, v)" by (cases kv)
  with Cons.prems have k: "k = nm" by simp
  have "(\<forall>(k, v) \<in> set (assign nm v a). k = nm) \<and> length (assign nm v a) \<le> 1"
    using Cons.prems(2,3) by (cases a) (auto split: if_splits)
  with Cons.IH [of "assign nm v a"] Cons.prems(1) show ?case
    by (simp add: kv k)
qed

lemma assign_single_key:
  "\<forall>(k, v) \<in> set obj. k = nm \<Longrightarrow> length obj \<le> 1 \<Longrightarrow> assign nm v obj = [(nm, v)]"
  by (cases obj) auto

lemma signature_alone:
  assumes "\<forall>k \<in> set (map fst custom).
             lower k = lower ''X-Webhook-Signature'' \<longrightarrow> k = ''X-Webhook-Signature''"
  shows "combined (assign ''X-Webhook-Signature'' sig (spread (default_headers evType uuid) custom))
           ''X-Webhook-Signature''
         = Some (normalize_value sig)"
proof -
  let ?P = "\<lambda>(k :: string, v :: string). lower k = lower ''X-Webhook-Signature''"
  let ?mine = "filter ?P custom"
  from assms have all: "\<forall>(k, v) \<in> set ?mine. k = ''X-Webhook-Signature''"
    by force
  have "filter ?P (assign ''X-Webhook-Signature'' sig (spread (default_headers evType uuid) custom))
        = assign ''X-Webhook-Signature'' sig (filter ?P (spread (default_headers evType uuid) custom))"
    by (simp add: filter_assign)
  also have "filter ?P (spread (default_headers evType uuid) custom) = spread [] ?mine"
    by (simp only: filter_spread defaults_not_signature)
  also have "assign ''X-Webhook-Signature'' sig (spread [] ?mine) = [(''X-Webhook-Signature'', sig)]"
    using spread_single_key [OF all, of "[]"] by (intro assign_single_key) simp_all
  finally show ?thesis
    by (simp add: combined_def)
qed


lemma signature_sent:
  assumes "secret webhook = Some S" and "S \<noteq> []"
    and "\<forall>k \<in> set (map fst (case headers webhook of None \<Rightarrow> [] | Some h \<Rightarrow> h)).
           lower k = lower ''X-Webhook-Signature'' \<longrightarrow> k = ''X-Webhook-Signature''"
  shows "combined (make_headers rt io webhook evType p) ''X-Webhook-Signature''
         = Some (normalize_value (''sha256='' @ hmac_sha256_hex rt S (stringify rt p)))"
  using assms(1,2) signature_alone [OF assms(3)]
  by (simp add: make_headers_def generateSignature_def)

lemma unsigned_sent:
  "\<not> truthy (secret webhook)
   \<Longrightarrow> combined (make_headers rt io webhook evType p) ''X-Webhook-Signature''
       = combined (fromEntries (case headers webhook of None \<Rightarrow> [] | Some h \<Rightarrow> h))
           ''X-Webhook-Signature''"
  by (cases "secret webhook")
     (simp_all add: make_headers_def fromEntries_def combined_spread_defaults)

subsection \<open>The attempts of a pipeline\<close>

lemma run_pipeline_unfold:
  "run_pipeline rt env webhook evType d n =
     (let eff = deliverWebhook rt (env n) webhook evType d n
      in if armed eff = None then [eff]
         else eff # run_pipeline rt env webhook evType d (Suc n))"
  by (subst run_pipeline.simps)
     (auto simp: Let_def armed_deliverWebhook retry_timer_def split: option.splits if_splits)

lemma run_pipeline_last:
  "armed (deliverWebhook rt (env n) webhook evType d n) = None
   \<Longrightarrow> run_pipeline rt env webhook evType d n = [deliverWebhook rt (env n) webhook evType d n]"
  by (subst run_pipeline_unfold) (simp add: Let_def)

lemma run_pipeline_more:
  "armed (deliverWebhook rt (env n) webhook evType d n) = Some t
   \<Longrightarrow> run_pipeline rt env webhook evType d n
       = deliverWebhook rt (env n) webhook evType d n # run_pipeline rt env webhook evType d (Suc n)"
  by (subst run_pipeline_unfold) (simp add: Let_def)

text \<open>Attempt \<open>i\<close> of a run (counted from 0) is the call of \<^verbatim>\<open>deliverWebhook\<close> with
  ordinal \<open>n + i\<close>, for the same subscription, event type and data.\<close>

lemma run_pipeline_nth:
  "i < length (run_pipeline rt env webhook evType d n)
   \<Longrightarrow> run_pipeline rt env webhook evType d n ! i
       = deliverWebhook rt (env (n + i)) webhook evType d (n + i)"
proof (induction i arbitrary: n)
  case 0
  show ?case
    by (cases "armed (deliverWebhook rt (env n) webhook evType d n)")
       (simp_all add: run_pipeline_last run_pipeline_more)
next
  case (Suc i)
  show ?case
  proof (cases "armed (deliverWebhook rt (env n) webhook evType d n)")
    case None
    with Suc.prems show ?thesis
      by (simp add: run_pipeline_last)
  next
    case (Some t)
    with Suc.prems have "i < length (run_pipeline rt env webhook evType d (Suc n))"
      by (simp add: run_pipeline_more)
    then have "run_pipeline rt env webhook evType d (Suc n) ! i
               = deliverWebhook rt (env (Suc n + i)) webhook evType d (Suc n + i)"
      by (rule Suc.IH)
    with Some show ?thesis
      by (simp add: run_pipeline_more)
  qed
qed

subsection \<open>Signer\<close>

text \<open>Where the signature header is as it should be: the secret is non-empty and no custom
  header has a name that differs from \<^verbatim>\<open>X-Webhook-Signature\<close> only in the case of its
  letters. A custom header with exactly that name does no harm, since the signature is
  assigned after the custom headers are merged.\<close>

lemma signature_of_body_sent:
  assumes "secret webhook = Some S" and "S \<noteq> []"
    and "\<forall>k \<in> set (map fst (case headers webhook of None \<Rightarrow> [] | Some h \<Rightarrow> h)).
           lower k = lower ''X-Webhook-Signature'' \<longrightarrow> k = ''X-Webhook-Signature''"
  shows "header_sent (sent (deliverWebhook rt io webhook evType d n)) ''X-Webhook-Signature''
         = Some (normalize_value
                   (''sha256='' @ hmac_sha256_hex rt S
                      (request_body (sent (deliverWebhook rt io webhook evType d n)))))"
  using signature_sent [OF assms]
  by (simp add: header_sent_def sent_deliverWebhook make_request_def)

text \<open>
  C3 fails on the code. The subscription \<open>shadowed\<close> has the secret \<open>s3cret\<close> and a custom
  header named \<^verbatim>\<open>x-webhook-signature\<close>. The object of headers then has two keys, the
  custom one and \<^verbatim>\<open>X-Webhook-Signature\<close>, which \<^verbatim>\<open>fetch\<close> takes for the same header:
  the request carries the custom value, a comma, and the signature of the body, not the
  signature alone.
\<close>

theorem shadowed_signature_sent:
  "secret shadowed = Some ''s3cret''
   \<and> request_body (sent (deliverWebhook toy_runtime (answer 200 True ''T0'') shadowed
                            ''video.deleted'' JNull 1))
     = ''{video.deleted|T0|w1}''
   \<and> header_sent (sent (deliverWebhook toy_runtime (answer 200 True ''T0'') shadowed
                           ''video.deleted'' JNull 1)) ''X-Webhook-Signature''
     = Some ''sha256=forged, sha256=mac(s3cret,{video.deleted|T0|w1})''"
  unfolding header_sent_deliverWebhook body_deliverWebhook by code_simp

text \<open>
  C4, as stated, fails: a subscription with no secret whose custom headers hold an entry
  named \<^verbatim>\<open>X-Webhook-Signature\<close> sends that entry, since the custom headers are merged into
  the request as they are.
\<close>

theorem no_secret_custom_header_counterexample:
  "secret forged = None \<and>
   header_sent (sent (deliverWebhook toy_runtime (answer 200 True ''T0'') forged
                        ''video.deleted'' JNull 1)) ''X-Webhook-Signature''
     = Some ''sha256=forged''"
  unfolding header_sent_deliverWebhook by code_simp

text \<open>
  C4, amended. When the secret of a subscription is absent or empty, the service adds no
  \<^verbatim>\<open>X-Webhook-Signature\<close> header of its own. A request for that subscription carries such a
  header exactly when a custom header of the subscription has that name, in whatever case
  its letters are; the value sent is then what the custom headers of that name give, joined
  in their order when there are several.
\<close>

theorem no_secret_header_is_custom:
  assumes "\<not> truthy (secret webhook)"
  shows "header_sent (sent (deliverWebhook rt io webhook evType d n)) ''X-Webhook-Signature''
           = combined (fromEntries (case headers webhook of None \<Rightarrow> [] | Some h \<Rightarrow> h))
               ''X-Webhook-Signature''
         \<and> (header_sent (sent (deliverWebhook rt io webhook evType d n)) ''X-Webhook-Signature''
              \<noteq> None)
           = (\<exists>k \<in> set (map fst (case headers webhook of None \<Rightarrow> [] | Some h \<Rightarrow> h)).
                lower k = lower ''X-Webhook-Signature'')"
proof -
  let ?custom = "case headers webhook of None \<Rightarrow> [] | Some h \<Rightarrow> h"
  have sent: "header_sent (sent (deliverWebhook rt io webhook evType d n)) ''X-Webhook-Signature''
              = combined (fromEntries ?custom) ''X-Webhook-Signature''"
    using assms by (simp add: header_sent_def sent_deliverWebhook make_request_def unsigned_sent)
  have keys: "set (map fst (fromEntries ?custom)) = set (map fst ?custom)"
    unfolding fromEntries_def keys_spread by simp
  have "(combined (fromEntries ?custom) ''X-Webhook-Signature'' \<noteq> None)
        = (\<exists>k \<in> set (map fst ?custom). lower k = lower ''X-Webhook-Signature'')"
    unfolding combined_None_iff keys by blast
  with sent show ?thesis
    by (simp only:)
qed

theorem no_secret_header_is_custom_witness:
  "\<not> truthy (secret (shadowed\<lparr>secret := Some []\<rparr>)) \<and>
   header_sent (sent (deliverWebhook toy_runtime (answer 200 True ''T0'')
                        (shadowed\<lparr>secret := Some []\<rparr>) ''video.deleted'' JNull 1))
     ''X-Webhook-Signature'' = Some ''sha256=forged'' \<and>
   header_sent (sent (deliverWebhook toy_runtime (answer 200 True ''T0'')
                        (hook\<lparr>secret := Some []\<rparr>) ''video.deleted'' JNull 1))
     ''X-Webhook-Signature'' = None"
proof -
  have s1: "\<not> truthy (secret (shadowed\<lparr>secret := Some []\<rparr>))"
    and s2: "\<not> truthy (secret (hook\<lparr>secret := Some []\<rparr>))"
    by simp_all
  have c1: "combined (fromEntries (case headers (shadowed\<lparr>secret := Some []\<rparr>) of
                                     None \<Rightarrow> [] | Some h \<Rightarrow> h)) ''X-Webhook-Signature''
            = Some ''sha256=forged''"
    by code_simp
  have c2: "combined (fromEntries (case headers (hook\<lparr>secret := Some []\<rparr>) of
                                     None \<Rightarrow> [] | Some h \<Rightarrow> h)) ''X-Webhook-Signature''
            = None"
    by code_simp
  from no_secret_header_is_custom [OF s1, of toy_runtime "answer 200 True ''T0''"
         "''video.deleted''" JNull 1]
       no_secret_header_is_custom [OF s2, of toy_runtime "answer 200 True ''T0''"
         "''video.deleted''" JNull 1]
  show ?thesis
    unfolding c1 c2 using s1 by blast
qed

subsection \<open>Retry scheduler\<close>

text \<open>The delay a retry timer runs for: the requested \<open>2 ^ n * 1000\<close> milliseconds up to
  attempt 21, whose request of 2097152000 is the last one within the timer's range, and 1
  millisecond from attempt 22 on.\<close>

lemma timeout_after_backoff:
  "timeout_after (backoff n) = (if n \<le> 21 then 2 ^ n * 1000 else 1)"
proof (cases "n \<le> 21")
  case True
  then have "(2 :: nat) ^ n \<le> 2 ^ 21"
    by (intro power_increasing) simp_all
  then have "(2 :: nat) ^ n * 1000 \<le> 2147483647"
    by simp
  moreover have "1 \<le> (2 :: nat) ^ n * 1000"
    by simp
  ultimately show ?thesis
    using True by (simp add: timeout_after_def backoff_def)
next
  case False
  then have "(2 :: nat) ^ 22 \<le> 2 ^ n"
    by (intro power_increasing) simp_all
  then have "\<not> (2 :: nat) ^ n * 1000 \<le> 2147483647"
    by simp
  with False show ?thesis
    by (simp add: timeout_after_def backoff_def)
qed

text \<open>
  C6, as stated, fails: the service requests \<open>2 ^ n * 1000\<close> milliseconds and bounds nothing
  itself, but the timer does. For the subscription \<open>patient\<close>, with 23 attempts, the retry
  after the failed attempt 22 is armed with a request of 4194304000 milliseconds, which is
  beyond the largest delay a timer takes, and the timer runs for 1 millisecond.
\<close>

theorem long_backoff_counterexample:
  "armed (deliverWebhook toy_runtime (answer 500 False ''T0'') patient ''video.deleted'' JNull 22)
     = Some (retry_timer patient ''video.deleted'' JNull 22) \<and>
   backoff 22 = Some 4194304000 \<and>
   delay (retry_timer patient ''video.deleted'' JNull 22) = 1"
  by (simp add: armed_deliverWebhook answer_def patient_def hook_def maxRetries_def
        retry_timer_def timeout_after_def backoff_def)

text \<open>
  C6, amended. Whenever an attempt with ordinal \<open>n\<close> arms a retry, the retry has ordinal
  \<open>n + 1\<close> and the delay requested is \<open>2 ^ n * 1000\<close> milliseconds, to which the service
  adds nothing and which it does not bound. Up to \<open>n = 21\<close> the timer runs for exactly that
  delay, that is \<open>2 ^ n\<close> seconds; from \<open>n = 22\<close> on the request is beyond the timer's range
  and the timer runs for 1 millisecond.
\<close>

theorem backoff_delay:
  assumes "armed (deliverWebhook rt io webhook evType d n) = Some t"
  shows "timer_attempt t = n + 1
         \<and> delay t = timeout_after (backoff n)
         \<and> (n < 1015 \<longrightarrow> backoff n = Some (2 ^ n * 1000))
         \<and> (n \<le> 21 \<longrightarrow> delay t = 2 ^ n * 1000)
         \<and> (22 \<le> n \<longrightarrow> delay t = 1)"
proof -
  from assms have t: "t = retry_timer webhook evType d n"
    by (auto simp: armed_deliverWebhook split: if_splits)
  then have "delay t = (if n \<le> 21 then 2 ^ n * 1000 else 1)"
    by (simp add: retry_timer_def timeout_after_backoff)
  with t show ?thesis
    by (simp add: retry_timer_def backoff_def)
qed

theorem backoff_delay_witness:
  "armed (deliverWebhook toy_runtime (answer 500 False ''T0'') hook ''video.deleted'' JNull 2)
     = Some (retry_timer hook ''video.deleted'' JNull 2) \<and>
   delay (retry_timer hook ''video.deleted'' JNull 2) = 4000 \<and>
   timer_attempt (retry_timer hook ''video.deleted'' JNull 2) = 3"
proof -
  have a: "armed (deliverWebhook toy_runtime (answer 500 False ''T0'') hook ''video.deleted'' JNull 2)
             = Some (retry_timer hook ''video.deleted'' JNull 2)"
    by (simp add: armed_deliverWebhook answer_def hook_def maxRetries_def)
  from backoff_delay [OF a] a show ?thesis by (simp add: timeout_after_def backoff_def)
qed

text \<open>
  C9, as stated, fails: the callback of the timer calls \<^verbatim>\<open>deliverWebhook\<close>, which builds
  its payload anew and reads the clock for the timestamp. With an endpoint that always
  answers 500 and a clock that reads \<open>T1\<close>, \<open>T2\<close>, \<open>T3\<close> at the three attempts, the payloads of
  the first two attempts carry different timestamps.
\<close>

theorem retry_payload_counterexample:
  "length (run_pipeline toy_runtime ticking hook ''video.deleted'' JNull 1) = 3 \<and>
   timestamp (built (run_pipeline toy_runtime ticking hook ''video.deleted'' JNull 1 ! 0)) = ''T1'' \<and>
   timestamp (built (run_pipeline toy_runtime ticking hook ''video.deleted'' JNull 1 ! 1)) = ''T2''"
  by (simp add: run_pipeline_last run_pipeline_more armed_deliverWebhook built_deliverWebhook
        make_payload_def ticking_def answer_def hook_def maxRetries_def)

text \<open>
  C9, amended. When a retry timer armed by attempt \<open>n\<close> fires, \<^verbatim>\<open>deliverWebhook\<close> is called
  with ordinal \<open>n + 1\<close> and the same subscription, event type and event data. That call
  builds a new payload, which agrees with the payload of attempt \<open>n\<close> in event, data and
  subscription id, and whose timestamp is the clock reading of the retry.
\<close>

theorem retry_rebuilds_payload:
  assumes "armed (deliverWebhook rt io webhook evType d n) = Some t"
  shows "timer_attempt t = n + 1 \<and> timer_webhook t = webhook \<and> timer_eventType t = evType
         \<and> timer_data t = d
         \<and> built (deliverWebhook rt io' (timer_webhook t) (timer_eventType t) (timer_data t)
                    (timer_attempt t))
           = (built (deliverWebhook rt io webhook evType d n))\<lparr>timestamp := now_iso io'\<rparr>"
  using assms
  by (auto simp: armed_deliverWebhook retry_timer_def built_deliverWebhook make_payload_def
           split: if_splits)

theorem retry_rebuilds_payload_witness:
  "armed (deliverWebhook toy_runtime (ticking 1) hook ''video.deleted'' JNull 1)
     = Some (retry_timer hook ''video.deleted'' JNull 1) \<and>
   timer_attempt (retry_timer hook ''video.deleted'' JNull 1) = 2 \<and>
   built (deliverWebhook toy_runtime (ticking 2) hook ''video.deleted'' JNull 2)
     = (built (deliverWebhook toy_runtime (ticking 1) hook ''video.deleted'' JNull 1))\<lparr>timestamp := ''T2''\<rparr>"
proof -
  have a: "armed (deliverWebhook toy_runtime (ticking 1) hook ''video.deleted'' JNull 1)
             = Some (retry_timer hook ''video.deleted'' JNull 1)"
    by (simp add: armed_deliverWebhook ticking_def answer_def hook_def maxRetries_def)
  from retry_rebuilds_payload [OF a, of "ticking 2"] a show ?thesis
    by (simp add: retry_timer_def numeral_2_eq_2 ticking_def answer_def)
qed

subsection \<open>Number and ordinals of the attempts\<close>

lemma inserted_deliverWebhook:
  "ledger_accepts io \<Longrightarrow> map attempt (inserted (deliverWebhook rt io webhook evType d n)) = [n]"
  by (simp add: deliverWebhook_def deliver_catch_def response_row_def error_row_def Let_def
           split: fetch_result.splits)

lemma success_deliverWebhook:
  "ledger_accepts io
   \<Longrightarrow> map success (inserted (deliverWebhook rt io webhook evType d n))
       = [if succeeds io then 1 else 0]"
  by (simp add: deliverWebhook_def deliver_catch_def response_row_def error_row_def Let_def
           split: fetch_result.splits)

lemma armed_None_iff:
  "ledger_accepts io
   \<Longrightarrow> (armed (deliverWebhook rt io webhook evType d n) = None)
       = (succeeds io \<or> \<not> int n < maxRetries webhook)"
  by (auto simp: armed_deliverWebhook split: fetch_result.splits)

lemma run_pipeline_stop:
  "ledger_accepts (env n) \<Longrightarrow> succeeds (env n) \<or> \<not> int n < maxRetries webhook
   \<Longrightarrow> run_pipeline rt env webhook evType d n = [deliverWebhook rt (env n) webhook evType d n]"
  by (rule run_pipeline_last) (simp add: armed_None_iff)

lemma run_pipeline_retry:
  "ledger_accepts (env n) \<Longrightarrow> \<not> succeeds (env n) \<Longrightarrow> int n < maxRetries webhook
   \<Longrightarrow> run_pipeline rt env webhook evType d n
       = deliverWebhook rt (env n) webhook evType d n # run_pipeline rt env webhook evType d (Suc n)"
  using armed_None_iff [of "env n" rt webhook evType d n]
  by (cases "armed (deliverWebhook rt (env n) webhook evType d n)")
     (simp_all add: run_pipeline_more)

lemma ordinals_run_pipeline:
  assumes acc: "\<forall>j. ledger_accepts (env j)"
  shows "map attempt (ledger (run_pipeline rt env webhook evType d n))
         = [n ..< n + length (run_pipeline rt env webhook evType d n)]"
proof (induction "nat (maxRetries webhook) - n" arbitrary: n)
  case 0
  then have "\<not> int n < maxRetries webhook" by linarith
  with acc have "run_pipeline rt env webhook evType d n
                 = [deliverWebhook rt (env n) webhook evType d n]"
    by (simp add: run_pipeline_stop del: ledger_accepts.simps)
  with acc show ?case
    by (simp add: ledger_def inserted_deliverWebhook del: ledger_accepts.simps)
next
  case (Suc x)
  show ?case
  proof (cases "succeeds (env n) \<or> \<not> int n < maxRetries webhook")
    case True
    with acc have "run_pipeline rt env webhook evType d n
                   = [deliverWebhook rt (env n) webhook evType d n]"
      by (simp add: run_pipeline_stop del: ledger_accepts.simps succeeds.simps)
    with acc show ?thesis
      by (simp add: ledger_def inserted_deliverWebhook del: ledger_accepts.simps)
  next
    case False
    with acc have run: "run_pipeline rt env webhook evType d n
                   = deliverWebhook rt (env n) webhook evType d n
                     # run_pipeline rt env webhook evType d (Suc n)"
      by (simp add: run_pipeline_retry del: ledger_accepts.simps succeeds.simps)
    from Suc.hyps(2) have "x = nat (maxRetries webhook) - Suc n" by simp
    then have "map attempt (ledger (run_pipeline rt env webhook evType d (Suc n)))
               = [Suc n ..< Suc n + length (run_pipeline rt env webhook evType d (Suc n))]"
      by (rule Suc.hyps(1))
    moreover have "[n ..< n + Suc l] = n # [Suc n ..< Suc n + l]" for l
      by (subst upt_rec) simp
    moreover from acc have "map attempt (inserted (deliverWebhook rt (env n) webhook evType d n)) = [n]"
      by (simp add: inserted_deliverWebhook del: ledger_accepts.simps)
    ultimately show ?thesis
      by (simp only: run ledger_def list.map concat.simps map_append length_Cons append.simps)
  qed
qed

lemma length_run_first_success:
  assumes acc: "\<forall>j. ledger_accepts (env j)"
    and "n \<le> k" and "succeeds (env k)" and "\<forall>j. n \<le> j \<and> j < k \<longrightarrow> \<not> succeeds (env j)"
  shows "length (run_pipeline rt env webhook evType d n)
         = min k (max n (nat (maxRetries webhook))) - n + 1"
  using assms(2-)
proof (induction "k - n" arbitrary: n)
  case 0
  then have "k = n" by simp
  with acc 0 have "run_pipeline rt env webhook evType d n
                 = [deliverWebhook rt (env n) webhook evType d n]"
    by (simp add: run_pipeline_stop del: ledger_accepts.simps succeeds.simps)
  with \<open>k = n\<close> show ?case by simp
next
  case (Suc x)
  then have "n < k" by simp
  with Suc.prems have fail: "\<not> succeeds (env n)" by blast
  show ?case
  proof (cases "int n < maxRetries webhook")
    case False
    with acc have "run_pipeline rt env webhook evType d n
                   = [deliverWebhook rt (env n) webhook evType d n]"
      by (simp add: run_pipeline_stop del: ledger_accepts.simps succeeds.simps)
    moreover from False have "max n (nat (maxRetries webhook)) = n" by linarith
    ultimately show ?thesis using \<open>n < k\<close> by simp
  next
    case True
    with acc fail have run: "run_pipeline rt env webhook evType d n
                   = deliverWebhook rt (env n) webhook evType d n
                     # run_pipeline rt env webhook evType d (Suc n)"
      by (simp add: run_pipeline_retry del: ledger_accepts.simps succeeds.simps)
    have IH: "length (run_pipeline rt env webhook evType d (Suc n))
          = min k (max (Suc n) (nat (maxRetries webhook))) - Suc n + 1"
    proof (rule Suc.hyps(1))
      show "x = k - Suc n" using Suc.hyps(2) by simp
      show "Suc n \<le> k" using \<open>n < k\<close> by simp
      show "succeeds (env k)" by (rule Suc.prems(2))
      show "\<forall>j. Suc n \<le> j \<and> j < k \<longrightarrow> \<not> succeeds (env j)" using Suc.prems(3) by simp
    qed
    from True have M: "Suc n \<le> nat (maxRetries webhook)" by linarith
    have "length (run_pipeline rt env webhook evType d n)
          = Suc (length (run_pipeline rt env webhook evType d (Suc n)))"
      by (simp add: run)
    also have "\<dots> = Suc (min k (max (Suc n) (nat (maxRetries webhook))) - Suc n + 1)"
      by (simp only: IH)
    also from M \<open>n < k\<close> have "\<dots> = min k (max n (nat (maxRetries webhook))) - n + 1"
      by arith
    finally show ?thesis .
  qed
qed

lemma length_run_no_success:
  assumes acc: "\<forall>j. ledger_accepts (env j)" and "\<forall>j. n \<le> j \<longrightarrow> \<not> succeeds (env j)"
  shows "length (run_pipeline rt env webhook evType d n)
         = max n (nat (maxRetries webhook)) - n + 1"
  using assms(2)
proof (induction "nat (maxRetries webhook) - n" arbitrary: n)
  case 0
  then have no: "\<not> int n < maxRetries webhook" by linarith
  with acc have "run_pipeline rt env webhook evType d n
                 = [deliverWebhook rt (env n) webhook evType d n]"
    by (simp add: run_pipeline_stop del: ledger_accepts.simps succeeds.simps)
  moreover from no have "max n (nat (maxRetries webhook)) = n" by linarith
  ultimately show ?case by simp
next
  case (Suc x)
  then have yes: "int n < maxRetries webhook" by linarith
  from Suc.prems have "\<not> succeeds (env n)" by blast
  with acc yes have run: "run_pipeline rt env webhook evType d n
                 = deliverWebhook rt (env n) webhook evType d n
                   # run_pipeline rt env webhook evType d (Suc n)"
    by (simp add: run_pipeline_retry del: ledger_accepts.simps succeeds.simps)
  have "length (run_pipeline rt env webhook evType d (Suc n))
        = max (Suc n) (nat (maxRetries webhook)) - Suc n + 1"
  proof (rule Suc.hyps(1))
    show "x = nat (maxRetries webhook) - Suc n" using Suc.hyps(2) by simp
    show "\<forall>j. Suc n \<le> j \<longrightarrow> \<not> succeeds (env j)" using Suc.prems by simp
  qed
  moreover from yes have "max (Suc n) (nat (maxRetries webhook)) = max n (nat (maxRetries webhook))"
    by linarith
  moreover from yes have "Suc n \<le> nat (maxRetries webhook)" by linarith
  ultimately show ?case using run by simp
qed


text \<open>
  C2, as stated, fails: the bound is \<^verbatim>\<open>webhook.retryCount || 3\<close>, so a subscription whose
  configured retry count is 0 is treated like one with none configured. With an endpoint
  that never succeeds it produces three rows, not zero, and a retry is armed after attempt 1
  although 1 is not below 0.
\<close>

theorem zero_retryCount_counterexample:
  "retryCount zero_retries = Some 0 \<and>
   map (\<lambda>row. (attempt row, success row))
     (ledger (run_pipeline toy_runtime ticking zero_retries ''video.deleted'' JNull 1))
     = [(1, 0), (2, 0), (3, 0)] \<and>
   armed (deliverWebhook toy_runtime (ticking 1) zero_retries ''video.deleted'' JNull 1) \<noteq> None"
  by (simp add: run_pipeline_last run_pipeline_more armed_deliverWebhook ledger_def
        deliverWebhook_def response_row_def Let_def
        ticking_def answer_def zero_retries_def hook_def maxRetries_def)

text \<open>
  C2, amended. Let \<open>M\<close> be the subscription's retry count, or 3 when that is null or 0, and
  suppose the ledger accepts every insert. Then a pipeline writes one row for each attempt,
  the ordinals of the rows are 1, 2, 3, ... without a gap, and the number of rows is
  \<open>min k (max 1 M)\<close> when \<open>k\<close> is the ordinal of the first attempt that succeeds, and
  \<open>max 1 M\<close> when no attempt succeeds. After a failed attempt with ordinal \<open>n\<close> a retry is
  armed exactly when \<open>n < M\<close>; after a successful attempt none is armed.
\<close>

theorem attempts_of_pipeline:
  assumes acc: "\<forall>j. ledger_accepts (env j)"
  shows "map attempt (ledger (run_pipeline rt env webhook evType d 1))
           = [1 ..< 1 + length (run_pipeline rt env webhook evType d 1)]
         \<and> (\<forall>k. 1 \<le> k \<and> succeeds (env k) \<and> (\<forall>j. 1 \<le> j \<and> j < k \<longrightarrow> \<not> succeeds (env j))
               \<longrightarrow> length (ledger (run_pipeline rt env webhook evType d 1))
                   = min k (nat (max 1 (maxRetries webhook))))
         \<and> ((\<forall>k. 1 \<le> k \<longrightarrow> \<not> succeeds (env k))
               \<longrightarrow> length (ledger (run_pipeline rt env webhook evType d 1))
                   = nat (max 1 (maxRetries webhook)))
         \<and> (\<forall>n. \<not> succeeds (env n)
               \<longrightarrow> (armed (deliverWebhook rt (env n) webhook evType d n) \<noteq> None)
                   = (int n < maxRetries webhook))
         \<and> (\<forall>n. succeeds (env n)
               \<longrightarrow> armed (deliverWebhook rt (env n) webhook evType d n) = None)"
proof -
  let ?run = "run_pipeline rt env webhook evType d 1"
  have ords: "map attempt (ledger ?run) = [1 ..< 1 + length ?run]"
    using acc by (rule ordinals_run_pipeline)
  then have "length (map attempt (ledger ?run)) = length [1 ..< 1 + length ?run]"
    by (rule arg_cong)
  then have rows: "length (ledger ?run) = length ?run"
    by (simp only: length_map length_upt add_diff_cancel_left')
  have first: "length (ledger ?run) = min k (nat (max 1 (maxRetries webhook)))"
    if "1 \<le> k \<and> succeeds (env k) \<and> (\<forall>j. 1 \<le> j \<and> j < k \<longrightarrow> \<not> succeeds (env j))" for k
  proof -
    from that have "length ?run = min k (max 1 (nat (maxRetries webhook))) - 1 + 1"
      by (intro length_run_first_success acc) simp_all
    moreover have "max 1 (nat (maxRetries webhook)) = nat (max 1 (maxRetries webhook))"
      by linarith
    ultimately show ?thesis using that rows by simp
  qed
  have none: "length (ledger ?run) = nat (max 1 (maxRetries webhook))"
    if "\<forall>k. 1 \<le> k \<longrightarrow> \<not> succeeds (env k)"
  proof -
    from that have "length ?run = max 1 (nat (maxRetries webhook)) - 1 + 1"
      by (intro length_run_no_success acc)
    moreover have "max 1 (nat (maxRetries webhook)) = nat (max 1 (maxRetries webhook))"
      by linarith
    ultimately show ?thesis using rows by simp
  qed
  have retry: "(armed (deliverWebhook rt (env n) webhook evType d n) \<noteq> None)
               = (int n < maxRetries webhook)" if "\<not> succeeds (env n)" for n
    using that acc armed_None_iff [of "env n" rt webhook evType d n]
    by (simp del: ledger_accepts.simps succeeds.simps)
  have stop: "armed (deliverWebhook rt (env n) webhook evType d n) = None" if "succeeds (env n)" for n
    using that acc armed_None_iff [of "env n" rt webhook evType d n]
    by (simp del: ledger_accepts.simps succeeds.simps)
  from ords first none retry stop show ?thesis
    by blast
qed

theorem attempts_of_pipeline_witness:
  "(\<forall>j. ledger_accepts (ticking j)) \<and>
   map attempt (ledger (run_pipeline toy_runtime ticking hook ''video.deleted'' JNull 1)) = [1, 2, 3]"
proof -
  have acc: "\<forall>j. ledger_accepts (ticking j)"
    by (simp add: ticking_def answer_def)
  have fails: "\<forall>k. 1 \<le> k \<longrightarrow> \<not> succeeds (ticking k)"
    by (simp add: ticking_def answer_def)
  have three: "nat (max 1 (maxRetries hook)) = 3"
    by (simp add: hook_def maxRetries_def)
  note inst = attempts_of_pipeline [OF acc, of toy_runtime hook "''video.deleted''" JNull]
  from inst fails three
  have len: "length (ledger (run_pipeline toy_runtime ticking hook ''video.deleted'' JNull 1)) = 3"
    by simp
  from inst have ords: "map attempt (ledger (run_pipeline toy_runtime ticking hook ''video.deleted'' JNull 1))
            = [1 ..< 1 + length (run_pipeline toy_runtime ticking hook ''video.deleted'' JNull 1)]"
    by (rule conjunct1)
  then have "length (map attempt (ledger (run_pipeline toy_runtime ticking hook ''video.deleted'' JNull 1)))
            = length [1 ..< 1 + length (run_pipeline toy_runtime ticking hook ''video.deleted'' JNull 1)]"
    by (rule arg_cong)
  with len have "length (run_pipeline toy_runtime ticking hook ''video.deleted'' JNull 1) = 3"
    by (simp only: length_map length_upt add_diff_cancel_left')
  with ords have "map attempt (ledger (run_pipeline toy_runtime ticking hook ''video.deleted'' JNull 1))
                 = [1 ..< 1 + 3]"
    by (simp only:)
  moreover have "[1 ..< 1 + 3] = [1, 2, 3 :: nat]"
    by code_simp
  ultimately show ?thesis using acc by simp
qed


text \<open>A run left out above: the endpoint answers 200 and the insert of the \<^verbatim>\<open>try\<close> block
  throws. The \<^verbatim>\<open>catch\<close> block then records the attempt as failed and arms a retry.\<close>

lemma insert_failure_after_response:
  "succeeds (rejecting\<lparr>insert_catch := None\<rparr>)
   \<and> map success
        (inserted (deliverWebhook toy_runtime (rejecting\<lparr>insert_catch := None\<rparr>) hook
                     ''video.deleted'' JNull 1)) = [0]
   \<and> armed (deliverWebhook toy_runtime (rejecting\<lparr>insert_catch := None\<rparr>) hook
               ''video.deleted'' JNull 1)
       = Some (retry_timer hook ''video.deleted'' JNull 1)"
  by (simp add: rejecting_def answer_def hook_def maxRetries_def deliverWebhook_def
        deliver_catch_def error_row_def Let_def)

subsection \<open>Event matcher and dispatcher\<close>

lemma triggerEvent_try_available:
  "unavailable db = None
   \<Longrightarrow> triggerEvent_try rt db env evType d uid =
       (let matchingWebhooks =
              filter (\<lambda>w. evType \<in> set (events w))
                (filter (\<lambda>w. active w = 1 \<and> userId w = Some uid) (webhooks_rows db))
        in \<lparr>returned = Inr (),
            started = map (\<lambda>w. (w, deliverWebhook rt (env (id_webhook w) 1) w evType d 1))
                        matchingWebhooks,
            trigger_logged = [Log_info (''Triggering '' @ show_nat (length matchingWebhooks)
                                        @ '' webhooks for event: '' @ evType)]\<rparr>)"
  by (simp add: triggerEvent_try_def select_active_webhooks_def allSettled_def Let_def zip_map2
        zip_same_conv_map del: show_nat.simps)

lemma triggerEvent_try_unavailable:
  "unavailable db = Some err
   \<Longrightarrow> triggerEvent_try rt db env evType d uid
       = \<lparr>returned = Inl err, started = [], trigger_logged = []\<rparr>"
  by (simp add: triggerEvent_try_def select_active_webhooks_def)

lemma started_triggerEvent:
  "started (triggerEvent rt db env evType d uid) =
     (case unavailable db of
        Some err \<Rightarrow> []
      | None \<Rightarrow>
          map (\<lambda>w. (w, deliverWebhook rt (env (id_webhook w) 1) w evType d 1))
            (filter (\<lambda>w. active w = 1 \<and> userId w = Some uid \<and> evType \<in> set (events w))
               (webhooks_rows db)))"
  by (cases "unavailable db")
     (simp_all add: triggerEvent_def triggerEvent_try_available triggerEvent_try_unavailable
        Let_def del: show_nat.simps)


lemma row_key_deliverWebhook:
  "ledger_accepts io
   \<Longrightarrow> map (\<lambda>row. (webhookId row, attempt row)) (inserted (deliverWebhook rt io webhook evType d n))
       = [(id_webhook webhook, n)]"
  by (simp add: deliverWebhook_def deliver_catch_def response_row_def error_row_def Let_def
           split: fetch_result.splits)



text \<open>Moments.\<close>

declare timeline.simps [simp del]

lemma timeline_unfold:
  "timeline rt env webhook evType d n due =
     (let eff = deliverWebhook rt (env n) webhook evType d n;
          at_end = due + elapsed (env n)
      in if armed eff = None then [(at_end, eff)]
         else (at_end, eff)
              # timeline rt env webhook evType d (Suc n) (at_end + timeout_after (backoff n)))"
  by (subst timeline.simps)
     (auto simp: Let_def armed_deliverWebhook retry_timer_def split: option.splits if_splits)

lemma timeline_last:
  "armed (deliverWebhook rt (env n) webhook evType d n) = None
   \<Longrightarrow> timeline rt env webhook evType d n due
       = [(due + elapsed (env n), deliverWebhook rt (env n) webhook evType d n)]"
  by (subst timeline_unfold) (simp add: Let_def)

lemma timeline_more:
  "armed (deliverWebhook rt (env n) webhook evType d n) = Some t
   \<Longrightarrow> timeline rt env webhook evType d n due
       = (due + elapsed (env n), deliverWebhook rt (env n) webhook evType d n)
         # timeline rt env webhook evType d (Suc n)
             (due + elapsed (env n) + timeout_after (backoff n))"
  by (subst timeline_unfold) (simp add: Let_def)





text \<open>
  C1, as stated, fails for a call during which the subscription query throws: the
  \<^verbatim>\<open>catch\<close> block logs the error and no pipeline is started, although the table holds an
  active subscription of the tenant to the event.
\<close>

theorem outage_counterexample:
  "filter (\<lambda>w. active w = 1 \<and> userId w = Some ''tenant-x'' \<and> ''video.deleted'' \<in> set (events w))
     (webhooks_rows outage) = [hook]
   \<and> started (triggerEvent toy_runtime outage (\<lambda>w. ticking) ''video.deleted'' JNull ''tenant-x'') = []"
  by (simp add: started_triggerEvent outage_def registry_def hook_def)

text \<open>
  C1, amended. For every call \<^verbatim>\<open>triggerEvent(eventType, data, tenantId)\<close> whose subscription
  query returns, the pipelines started are exactly those of the subscriptions that are
  active, owned by \<open>tenantId\<close> and subscribed to \<open>eventType\<close>, one pipeline each, in table
  order, each started by a call of \<^verbatim>\<open>deliverWebhook\<close> with ordinal 1; subscriptions of other
  tenants, inactive ones and ones not subscribed to the event start none. When the query
  throws, no pipeline is started.
\<close>

theorem pipelines_started:
  "map fst (started (triggerEvent rt db env evType d uid)) =
     (case unavailable db of
        Some err \<Rightarrow> []
      | None \<Rightarrow>
          filter (\<lambda>w. active w = 1 \<and> userId w = Some uid \<and> evType \<in> set (events w))
            (webhooks_rows db))
   \<and> map snd (started (triggerEvent rt db env evType d uid)) =
       map (\<lambda>w. deliverWebhook rt (env (id_webhook w) 1) w evType d 1)
         (map fst (started (triggerEvent rt db env evType d uid)))"
  by (auto simp: started_triggerEvent comp_def split: option.splits)

text \<open>
  C5. Whatever the event, the tenant, the state of the database (available or not), the
  answers of the endpoints and the fate of the ledger inserts, \<^verbatim>\<open>triggerEvent\<close> returns
  normally: an error of the query is caught and logged, and a rejected
  \<^verbatim>\<open>deliverWebhook\<close> promise is absorbed by \<^verbatim>\<open>Promise.allSettled\<close>.
\<close>

theorem triggerEvent_never_raises:
  "returned (triggerEvent rt db env evType d uid) = Inr ()"
  by (cases "unavailable db")
     (simp_all add: triggerEvent_def triggerEvent_try_available triggerEvent_try_unavailable
        Let_def del: show_nat.simps)

text \<open>Two runs with an internal failure: the query throws; the first attempt's promise is
  rejected because the ledger refuses both inserts.\<close>

lemma triggerEvent_swallows_failures:
  "returned (triggerEvent toy_runtime outage (\<lambda>w k. rejecting) ''video.deleted'' JNull ''tenant-x'')
     = Inr ()
   \<and> trigger_logged (triggerEvent toy_runtime outage (\<lambda>w k. rejecting) ''video.deleted'' JNull ''tenant-x'')
     = [Log_error ''Failed to trigger webhooks'']
   \<and> settled (deliverWebhook toy_runtime rejecting hook ''video.deleted'' JNull 1)
     = Inl (Thrown ''disk full'')
   \<and> returned (triggerEvent toy_runtime registry (\<lambda>w k. rejecting) ''video.deleted'' JNull ''tenant-x'')
     = Inr ()"
  by (simp add: triggerEvent_def triggerEvent_try_available triggerEvent_try_unavailable
        outage_def registry_def rejecting_def answer_def deliverWebhook_def deliver_catch_def
        Let_def del: show_nat.simps)





text \<open>Retries can be over when \<^verbatim>\<open>triggerEvent\<close> returns, and can be still to come. With the
  two subscriptions of \<open>two_hooks\<close>, the three attempts of \<open>w1\<close> settle 12, 2024 and 6036
  milliseconds after the start, and the call returns after 30 seconds, with all three rows
  in the ledger. With \<open>w1\<close> alone the call returns after 12 milliseconds and the ledger
  holds the row of attempt 1 only.\<close>

lemma retries_and_return:
  "return_time fast_and_slow
     (triggerEvent toy_runtime two_hooks fast_and_slow ''video.deleted'' JNull ''tenant-x'')
     = 30000
   \<and> map (\<lambda>row. (webhookId row, attempt row))
        (ledger_at_return toy_runtime fast_and_slow ''video.deleted'' JNull
           (triggerEvent toy_runtime two_hooks fast_and_slow ''video.deleted'' JNull ''tenant-x''))
     = [(''w1'', 1), (''w1'', 2), (''w1'', 3), (''w2'', 1)]
   \<and> return_time fast_and_slow
        (triggerEvent toy_runtime registry fast_and_slow ''video.deleted'' JNull ''tenant-x'')
     = 12
   \<and> map (\<lambda>row. (webhookId row, attempt row))
        (ledger_at_return toy_runtime fast_and_slow ''video.deleted'' JNull
           (triggerEvent toy_runtime registry fast_and_slow ''video.deleted'' JNull ''tenant-x''))
     = [(''w1'', 1)]"
proof -
  let ?slow = "(answer 200 True ''T0'')\<lparr>elapsed := 30000\<rparr>"
  let ?w2 = "hook\<lparr>id_webhook := ''w2''\<rparr>"
  have env1: "fast_and_slow ''w1'' = ticking" and env2: "fast_and_slow ''w2'' k = ?slow" for k
    by (simp_all add: fast_and_slow_def fun_eq_iff)
  have ids: "id_webhook hook = ''w1''" "id_webhook ?w2 = ''w2''"
    by (simp_all add: hook_def)
  have acc: "ledger_accepts (ticking k)" "ledger_accepts ?slow" for k
    by (simp_all add: ticking_def answer_def)
  have el: "elapsed (ticking k) = 12" "elapsed ?slow = 30000" for k
    by (simp_all add: ticking_def answer_def)
  have more: "armed (deliverWebhook toy_runtime (ticking 1) hook ''video.deleted'' JNull 1)
                = Some (retry_timer hook ''video.deleted'' JNull 1)"
             "armed (deliverWebhook toy_runtime (ticking 2) hook ''video.deleted'' JNull 2)
                = Some (retry_timer hook ''video.deleted'' JNull 2)"
    and last: "armed (deliverWebhook toy_runtime (ticking 3) hook ''video.deleted'' JNull 3) = None"
              "armed (deliverWebhook toy_runtime ?slow ?w2 ''video.deleted'' JNull 1) = None"
    by (simp_all add: armed_deliverWebhook ticking_def answer_def hook_def maxRetries_def)
  have line1: "timeline toy_runtime ticking hook ''video.deleted'' JNull 1 0
               = [(12, deliverWebhook toy_runtime (ticking 1) hook ''video.deleted'' JNull 1),
                  (2024, deliverWebhook toy_runtime (ticking 2) hook ''video.deleted'' JNull 2),
                  (6036, deliverWebhook toy_runtime (ticking 3) hook ''video.deleted'' JNull 3)]"
    using timeline_more [of toy_runtime ticking 1 hook "''video.deleted''" JNull _ 0]
          timeline_more [of toy_runtime ticking 2 hook "''video.deleted''" JNull _ 2012]
          timeline_last [of toy_runtime ticking 3 hook "''video.deleted''" JNull 6024]
          more last(1)
    by (simp add: el timeout_after_def backoff_def numeral_2_eq_2 numeral_3_eq_3)
  have line2: "timeline toy_runtime (\<lambda>k. ?slow) ?w2 ''video.deleted'' JNull 1 0
               = [(30000, deliverWebhook toy_runtime ?slow ?w2 ''video.deleted'' JNull 1)]"
    using timeline_last [of toy_runtime "\<lambda>k. ?slow" 1 ?w2 "''video.deleted''" JNull 0] last(2)
    by (simp add: el)
  have rows: "map (\<lambda>row. (webhookId row, attempt row))
                (inserted (deliverWebhook toy_runtime (ticking k) hook ''video.deleted'' JNull k))
              = [(''w1'', k)]"
             "map (\<lambda>row. (webhookId row, attempt row))
                (inserted (deliverWebhook toy_runtime ?slow ?w2 ''video.deleted'' JNull 1))
              = [(''w2'', 1)]" for k
    using row_key_deliverWebhook [OF acc(1), of toy_runtime k hook "''video.deleted''" JNull k]
          row_key_deliverWebhook [OF acc(2), of toy_runtime ?w2 "''video.deleted''" JNull 1]
    by (simp_all add: ids)
  have st2: "started (triggerEvent toy_runtime two_hooks fast_and_slow ''video.deleted'' JNull ''tenant-x'')
             = [(hook, deliverWebhook toy_runtime (ticking 1) hook ''video.deleted'' JNull 1),
                (?w2, deliverWebhook toy_runtime ?slow ?w2 ''video.deleted'' JNull 1)]"
    by (simp add: started_triggerEvent two_hooks_def ids env1 env2) (simp add: hook_def)
  have st1: "started (triggerEvent toy_runtime registry fast_and_slow ''video.deleted'' JNull ''tenant-x'')
             = [(hook, deliverWebhook toy_runtime (ticking 1) hook ''video.deleted'' JNull 1)]"
    by (simp add: started_triggerEvent registry_def ids env1) (simp add: hook_def)
  have env2': "fast_and_slow ''w2'' = (\<lambda>k. ?slow)"
    by (simp add: fast_and_slow_def fun_eq_iff)
  show ?thesis
    using line1 line2 rows(1) [of 1] rows(1) [of 2] rows(1) [of 3] rows(2)
    by (simp add: st1 st2 ledger_at_return_def return_time_def rows_by_def ids env1 env2' el
          del: ledger_accepts.simps)
qed


subsection \<open>Delivery ledger statistics\<close>



lemma math_round_0 [simp]: "math_round 0 = 0"
proof -
  have "\<lfloor>(1 :: rat) / 2\<rfloor> = 0"
    by linarith
  then show ?thesis
    by (simp add: math_round_def)
qed







subsection \<open>Creating a subscription\<close>










end
